theory Spec2Isabelle
  imports Main "HOL-Library.AList" "HOL-Library.Sublist"
begin

section \<open>Configuration resolution and validation of zenodo-deposit\<close>

text \<open>
  A shallow embedding of \<^verbatim>\<open>src/zenodo_deposit/config.py\<close> and of
  \<^verbatim>\<open>hide_access_token\<close> of \<^verbatim>\<open>src/zenodo_deposit/cli.py\<close>.

  \<^item> A Python \<^verbatim>\<open>str\<close> is a list of code points. Isabelle's \<open>char\<close> has 256 values, so
    a \<open>string\<close> here is a Python string over U+0000..U+00FF, one \<open>char\<close> per code point.
  \<^item> A \<^verbatim>\<open>Dict[str, str]\<close> is an association list in insertion order (the order shows in
    the \<^verbatim>\<open>repr\<close> that the error messages embed); \<open>map_of\<close> is \<^verbatim>\<open>dict.get\<close>,
    \<open>AList.update\<close> is item assignment (in place for a present key, appended for a new one).
  \<^item> A raised exception is the \<open>Inl\<close> of a sum type.
  \<^item> The process environment, the file system and the TOML parser are a \<open>world\<close> record
    passed to every call.
  \<^item> Dictionaries that outlive a call (the module global \<^verbatim>\<open>default_zenodo\<close> and the
    dictionaries \<^verbatim>\<open>config_section\<close> returns, which \<^verbatim>\<open>lru_cache\<close> keeps) live in
    an explicit heap, since callers can mutate them through shared references.
\<close>

subsection \<open>Data\<close>

type_synonym str_dict = "(string \<times> string) list"

type_synonym toml_doc = "string \<Rightarrow> str_dict option"

datatype error =
    ValueError string
  | KeyError string
  | FileNotFoundError string
  | TOMLDecodeError string

text \<open>
  The world of one call: \<^verbatim>\<open>os.environ\<close>, \<^verbatim>\<open>os.path.exists\<close>,
  \<^verbatim>\<open>os.path.expanduser\<close>, and \<open>load_toml p\<close> for the outcome of
  \<^verbatim>\<open>with open(p, "rb") as f: toml.load(f)\<close>. The type annotation of
  \<^verbatim>\<open>read_config_file\<close>, \<^verbatim>\<open>Dict[str, Dict[str, str]]\<close>, is taken as the type of a
  parsed document.
\<close>

record world =
  environ :: "string \<Rightarrow> string option"
  path_exists :: "string \<Rightarrow> bool"
  expanduser :: "string \<Rightarrow> string"
  load_toml :: "string \<Rightarrow> error + toml_doc"

definition default_zenodo :: str_dict where
  "default_zenodo =
     [(''ZENODO_ACCESS_TOKEN'', ''Change me''),
      (''ZENODO_SANDBOX_ACCESS_TOKEN'', ''Change me'')]"

definition settings_name :: string where
  "settings_name = ''.zenodo-deposit-settings.toml''"

subsection \<open>Python string operations\<close>

text \<open>\<^verbatim>\<open>str.isspace\<close> of one code point, for the code points below 256.\<close>

definition isspace :: "char \<Rightarrow> bool" where
  "isspace c = ((of_char c :: nat) \<in> {9, 10, 11, 12, 13, 28, 29, 30, 31, 32, 133, 160})"

text \<open>\<^verbatim>\<open>str.strip()\<close> with no argument.\<close>

definition strip :: "string \<Rightarrow> string" where
  "strip s = rev (dropWhile isspace (rev (dropWhile isspace s)))"

text \<open>\<^verbatim>\<open>str.isprintable\<close> of one code point, for the code points below 256.\<close>

definition isprintable :: "char \<Rightarrow> bool" where
  "isprintable c =
     (let n = (of_char c :: nat)
      in (32 \<le> n \<and> n \<le> 126) \<or> (161 \<le> n \<and> n \<le> 172) \<or> (174 \<le> n \<and> n \<le> 255))"

definition hexdigit :: "nat \<Rightarrow> char" where
  "hexdigit n = ''0123456789abcdef'' ! (n mod 16)"

text \<open>
  \<^verbatim>\<open>repr\<close> of a \<^verbatim>\<open>str\<close>: the quote is the double quote when the string holds a single
  quote and no double quote, the single quote otherwise; the quote and the backslash are
  escaped with a backslash, tab, newline and carriage return have their letters, any
  other unprintable code point below 256 is \<^verbatim>\<open>\xhh\<close>.
\<close>

definition repr_quote :: "string \<Rightarrow> char" where
  "repr_quote s = (if CHR 0x27 \<in> set s \<and> CHR 0x22 \<notin> set s then CHR 0x22 else CHR 0x27)"

definition repr_char :: "char \<Rightarrow> char \<Rightarrow> string" where
  "repr_char q c =
     (if c = q \<or> c = CHR 0x5C then [CHR 0x5C, c]
      else if c = CHR 0x09 then [CHR 0x5C, CHR ''t'']
      else if c = CHR 0x0A then [CHR 0x5C, CHR ''n'']
      else if c = CHR 0x0D then [CHR 0x5C, CHR ''r'']
      else if isprintable c then [c]
      else [CHR 0x5C, CHR ''x'', hexdigit (of_char c div 16), hexdigit (of_char c)])"

definition repr_str :: "string \<Rightarrow> string" where
  "repr_str s = repr_quote s # concat (map (repr_char (repr_quote s)) s) @ [repr_quote s]"

text \<open>\<^verbatim>\<open>sep.join(xs)\<close>.\<close>

fun join :: "string \<Rightarrow> string list \<Rightarrow> string" where
  "join sep [] = []"
| "join sep [x] = x"
| "join sep (x # y # ys) = x @ sep @ join sep (y # ys)"

text \<open>\<^verbatim>\<open>repr\<close> of a \<^verbatim>\<open>Dict[str, str]\<close>, which is what \<^verbatim>\<open>{config}\<close> in an f-string gives.\<close>

definition repr_dict :: "str_dict \<Rightarrow> string" where
  "repr_dict d =
     ''{'' @ join '', '' (map (\<lambda>(k, v). repr_str k @ '': '' @ repr_str v) d) @ ''}''"

text \<open>\<^verbatim>\<open>hide_access_token\<close> of cli.py: \<^verbatim>\<open>token[:4] + "*" * (len(token) - 4)\<close>.\<close>

definition hide_access_token :: "string \<Rightarrow> string" where
  "hide_access_token token =
     take 4 token @ replicate (nat (int (length token) - 4)) (CHR ''*'')"

subsection \<open>Source discovery and reading\<close>

fun first_file_that_exists :: "world \<Rightarrow> string list \<Rightarrow> string option" where
  "first_file_that_exists w [] = None"
| "first_file_that_exists w (file # files) =
     (if path_exists w file then Some file else first_file_that_exists w files)"

text \<open>
  Truth value of an optional string argument: \<^verbatim>\<open>None\<close> and the empty string are false.
\<close>

fun truthy :: "string option \<Rightarrow> bool" where
  "truthy None = False"
| "truthy (Some s) = (s \<noteq> [])"

text \<open>
  \<open>read_config_file w dz file\<close>, where \<open>dz\<close> is what the module global
  \<^verbatim>\<open>default_zenodo\<close> holds when the call is made. The fallback builds
  \<^verbatim>\<open>{"zenodo": copy.deepcopy(default_zenodo)}\<close>; the copy is a value here, and the
  dictionary that leaves \<^verbatim>\<open>config_section\<close> is allocated in \<open>config_section\<close> below.
\<close>

definition read_config_file :: "world \<Rightarrow> str_dict \<Rightarrow> string option \<Rightarrow> error + toml_doc" where
  "read_config_file w dz file =
     (if truthy file then load_toml w (the file)
      else
        (case first_file_that_exists w
                [settings_name, expanduser w (''~/'' @ settings_name)] of
           Some first_config \<Rightarrow> load_toml w first_config
         | None \<Rightarrow> Inr ((\<lambda>_. None)(''zenodo'' := Some dz))))"

subsection \<open>Section extraction and environment overlay\<close>

text \<open>
  The loop of \<^verbatim>\<open>config_section\<close>:
  \<^verbatim>\<open>for key in config_section.keys(): if key in os.environ: config_section[key] = os.environ[key]\<close>.
\<close>

fun env_update :: "world \<Rightarrow> string list \<Rightarrow> str_dict \<Rightarrow> str_dict" where
  "env_update w [] d = d"
| "env_update w (key # keys) d =
     (case environ w key of
        Some v \<Rightarrow> env_update w keys (AList.update key v d)
      | None \<Rightarrow> env_update w keys d)"

definition section_not_found :: "string \<Rightarrow> error" where
  "section_not_found section_name =
     ValueError (''Section '' @ section_name @ '' not found in the configuration file'')"

text \<open>
  The body of \<^verbatim>\<open>config_section\<close>, the function that \<^verbatim>\<open>lru_cache\<close> wraps
  (\<^verbatim>\<open>config_section.__wrapped__\<close>). \<^verbatim>\<open>not config_section\<close> holds for \<^verbatim>\<open>None\<close> and
  for the empty dictionary.
\<close>

definition config_section_wrapped ::
    "world \<Rightarrow> str_dict \<Rightarrow> string option \<Rightarrow> string \<Rightarrow> error + str_dict" where
  "config_section_wrapped w dz config_file section_name =
     (case read_config_file w dz config_file of
        Inl e \<Rightarrow> Inl e
      | Inr config \<Rightarrow>
          (case config section_name of
             None \<Rightarrow> Inl (section_not_found section_name)
           | Some cs \<Rightarrow>
               if cs = [] then Inl (section_not_found section_name)
               else Inr (env_update w (map fst cs) cs)))"

subsection \<open>The heap and the cache\<close>

text \<open>
  \<open>heap s a\<close> is the content of the dictionary object at address \<open>a\<close>; addresses from
  \<open>next_addr s\<close> on are free. \<open>lru s\<close> is the table of \<^verbatim>\<open>@lru_cache(maxsize=32)\<close>:
  argument tuple and address of the returned object, most recently used first.
\<close>

record pystate =
  heap :: "nat \<Rightarrow> str_dict"
  next_addr :: nat
  lru :: "((string option \<times> string) \<times> nat) list"

definition default_zenodo_addr :: nat where
  "default_zenodo_addr = 0"

definition maxsize :: nat where
  "maxsize = 32"

text \<open>The state after the module is imported.\<close>

definition init_state :: pystate where
  "init_state =
     \<lparr>heap = (\<lambda>_. [])(default_zenodo_addr := default_zenodo),
      next_addr = Suc default_zenodo_addr,
      lru = []\<rparr>"

text \<open>
  \<^verbatim>\<open>config_section\<close> as callers see it. A hit returns the cached object and moves its
  entry to the front. A miss runs the body; an exception leaves the cache as it was; a
  result is a new object (\<^verbatim>\<open>copy.deepcopy\<close>), entered in the cache, and the least
  recently used entry leaves when the cache is full.
\<close>

definition config_section ::
    "world \<Rightarrow> string option \<Rightarrow> string \<Rightarrow> pystate \<Rightarrow> (error + nat) \<times> pystate" where
  "config_section w config_file section_name s =
     (let key = (config_file, section_name) in
      case map_of (lru s) key of
        Some a \<Rightarrow> (Inr a, s\<lparr>lru := (key, a) # filter (\<lambda>e. fst e \<noteq> key) (lru s)\<rparr>)
      | None \<Rightarrow>
          (case config_section_wrapped w (heap s default_zenodo_addr) config_file section_name of
             Inl e \<Rightarrow> (Inl e, s)
           | Inr d \<Rightarrow>
               (Inr (next_addr s),
                s\<lparr>heap := (heap s)(next_addr s := d),
                  next_addr := Suc (next_addr s),
                  lru := take maxsize ((key, next_addr s) # lru s)\<rparr>)))"

definition zenodo_config :: "world \<Rightarrow> string option \<Rightarrow> pystate \<Rightarrow> (error + nat) \<times> pystate" where
  "zenodo_config w config_file s = config_section w config_file ''zenodo'' s"

text \<open>A caller's \<^verbatim>\<open>d[k] = v\<close> on the dictionary object at address \<open>a\<close>.\<close>

definition setitem :: "nat \<Rightarrow> string \<Rightarrow> string \<Rightarrow> pystate \<Rightarrow> pystate" where
  "setitem a k v s = s\<lparr>heap := (heap s)(a := AList.update k v (heap s a))\<rparr>"

text \<open>
  Well-formed states: the default object is allocated, and every cached address is an
  allocated object other than the default.
\<close>

definition wf_state :: "pystate \<Rightarrow> bool" where
  "wf_state s =
     (default_zenodo_addr < next_addr s \<and>
      list_all (\<lambda>e. default_zenodo_addr < snd e \<and> snd e < next_addr s) (lru s))"

subsection \<open>Credential validation\<close>

text \<open>\<^verbatim>\<open>d[k]\<close>, which raises \<^verbatim>\<open>KeyError\<close> for a missing key.\<close>

definition getitem :: "str_dict \<Rightarrow> string \<Rightarrow> error + string" where
  "getitem d k = (case map_of d k of None \<Rightarrow> Inl (KeyError k) | Some v \<Rightarrow> Inr v)"

definition sandbox_message :: "str_dict \<Rightarrow> string" where
  "sandbox_message config =
     ''ZENODO_SANDBOX_ACCESS_TOKEN is not set or invalid, sandbox being used. Config: ''
       @ repr_dict config"

definition production_message :: "str_dict \<Rightarrow> string" where
  "production_message config =
     ''ZENODO_ACCESS_TOKEN is not set or invalid in production environment. Config: ''
       @ repr_dict config"

text \<open>
  \<open>validate_zenodo_config dz config use_sandbox\<close>, with \<open>dz\<close> the content of the global
  \<^verbatim>\<open>default_zenodo\<close>. The dictionary is passed by reference, so the result is paired
  with the content of \<open>config\<close> after the call. The test
  \<^verbatim>\<open>not token or token.strip() == "" or token.strip() == default_zenodo[KEY]\<close>
  is evaluated left to right and stops at the first true disjunct.
\<close>

definition validate_zenodo_config ::
    "str_dict \<Rightarrow> str_dict \<Rightarrow> bool \<Rightarrow> (error + bool) \<times> str_dict" where
  "validate_zenodo_config dz config use_sandbox =
     (if use_sandbox then
        (case map_of config ''ZENODO_SANDBOX_ACCESS_TOKEN'' of
           None \<Rightarrow> (Inl (ValueError (sandbox_message config)), config)
         | Some token \<Rightarrow>
             if token = [] \<or> strip token = [] then
               (Inl (ValueError (sandbox_message config)), config)
             else
               (case getitem dz ''ZENODO_SANDBOX_ACCESS_TOKEN'' of
                  Inl e \<Rightarrow> (Inl e, config)
                | Inr placeholder \<Rightarrow>
                    if strip token = placeholder then
                      (Inl (ValueError (sandbox_message config)), config)
                    else (Inr True, config)))
      else
        (case map_of config ''ZENODO_ACCESS_TOKEN'' of
           None \<Rightarrow> (Inl (ValueError (production_message config)), config)
         | Some token \<Rightarrow>
             if token = [] \<or> strip token = [] then
               (Inl (ValueError (production_message config)), config)
             else
               (case getitem dz ''ZENODO_ACCESS_TOKEN'' of
                  Inl e \<Rightarrow> (Inl e, config)
                | Inr placeholder \<Rightarrow>
                    if strip token = placeholder then
                      (Inl (ValueError (production_message config)), config)
                    else (Inr True, config))))"

subsection \<open>Example worlds\<close>

text \<open>
  Worlds for the concrete runs below: a home directory \<^verbatim>\<open>/home/user\<close>, and a settings
  file in the working directory and in the home directory, each present or not.
\<close>

definition no_env :: "string \<Rightarrow> string option" where
  "no_env = (\<lambda>_. None)"

definition token_env :: "string \<Rightarrow> string option" where
  "token_env = (\<lambda>_. None)(''ZENODO_ACCESS_TOKEN'' := Some ''env-token'',
                            ''FOO'' := Some ''bar'')"

definition cwd_doc :: toml_doc where
  "cwd_doc = (\<lambda>_. None)(''zenodo'' := Some [(''ZENODO_ACCESS_TOKEN'', ''cwd-token'')])"

definition home_doc :: toml_doc where
  "home_doc = (\<lambda>_. None)(''zenodo'' := Some [(''ZENODO_ACCESS_TOKEN'', ''home-token'')],
                          ''empty'' := Some [])"

definition world_with_files :: "bool \<Rightarrow> bool \<Rightarrow> (string \<Rightarrow> string option) \<Rightarrow> world" where
  "world_with_files in_cwd in_home env =
     \<lparr>environ = env,
      path_exists = (\<lambda>p. (in_cwd \<and> p = ''.zenodo-deposit-settings.toml'')
                        \<or> (in_home \<and> p = ''/home/user/.zenodo-deposit-settings.toml'')),
      expanduser = (\<lambda>p. ''/home/user'' @ drop 1 p),
      load_toml = (\<lambda>p. if in_cwd \<and> p = ''.zenodo-deposit-settings.toml'' then Inr cwd_doc
                        else if in_home \<and> p = ''/home/user/.zenodo-deposit-settings.toml''
                        then Inr home_doc
                        else Inl (FileNotFoundError p))\<rparr>"

definition world_without_files :: "(string \<Rightarrow> string option) \<Rightarrow> world" where
  "world_without_files env = world_with_files False False env"

text \<open>
  The state after \<^verbatim>\<open>config_section(None, "zenodo")\<close> has been called once in a new
  process with no settings file and an empty environment.
\<close>

definition state_after_first_call :: pystate where
  "state_after_first_call =
     \<lparr>heap = (\<lambda>_. [])(0 := default_zenodo, 1 := default_zenodo),
      next_addr = 2,
      lru = [((None, ''zenodo''), 1)]\<rparr>"

section \<open>Properties\<close>

subsection \<open>Credential validation\<close>

lemma strip_Nil: "strip [] = []"
  by (simp add: strip_def)

lemma getitem_default:
  "getitem default_zenodo ''ZENODO_ACCESS_TOKEN'' = Inr ''Change me''"
  "getitem default_zenodo ''ZENODO_SANDBOX_ACCESS_TOKEN'' = Inr ''Change me''"
  by (simp_all add: getitem_def default_zenodo_def)

lemma validate_fst:
  "fst (validate_zenodo_config default_zenodo config use_sandbox) =
     (case map_of config
             (if use_sandbox then ''ZENODO_SANDBOX_ACCESS_TOKEN'' else ''ZENODO_ACCESS_TOKEN'') of
        None \<Rightarrow>
          Inl (ValueError (if use_sandbox then sandbox_message config
                           else production_message config))
      | Some token \<Rightarrow>
          if strip token = [] \<or> strip token = ''Change me''
          then Inl (ValueError (if use_sandbox then sandbox_message config
                                else production_message config))
          else Inr True)"
  by (auto simp: validate_zenodo_config_def getitem_default strip_Nil split: option.splits)

lemma validate_snd: "snd (validate_zenodo_config dz config use_sandbox) = config"
  by (simp add: validate_zenodo_config_def split: option.splits sum.splits)

text \<open>
  C1. With the built-in default section as \<^verbatim>\<open>default_zenodo\<close>, validation raises a
  \<^verbatim>\<open>ValueError\<close> exactly when the selected token key (the sandbox key when the flag is
  set, the production key otherwise) is absent, or its value is empty after
  \<^verbatim>\<open>strip()\<close>, or its value is \<^verbatim>\<open>"Change me"\<close> after \<^verbatim>\<open>strip()\<close>; in every other case
  it returns \<^verbatim>\<open>True\<close>.
\<close>

theorem validate_fails_iff:
  "((\<exists>m. fst (validate_zenodo_config default_zenodo config use_sandbox) = Inl (ValueError m)) =
      (case map_of config
              (if use_sandbox then ''ZENODO_SANDBOX_ACCESS_TOKEN'' else ''ZENODO_ACCESS_TOKEN'') of
         None \<Rightarrow> True
       | Some token \<Rightarrow> strip token = [] \<or> strip token = ''Change me''))
   \<and>
   ((fst (validate_zenodo_config default_zenodo config use_sandbox) = Inr True) =
      (case map_of config
              (if use_sandbox then ''ZENODO_SANDBOX_ACCESS_TOKEN'' else ''ZENODO_ACCESS_TOKEN'') of
         None \<Rightarrow> False
       | Some token \<Rightarrow> strip token \<noteq> [] \<and> strip token \<noteq> ''Change me''))"
  unfolding validate_fst by (simp split: option.splits)

text \<open>
  A padded placeholder is rejected in production mode, a blank sandbox token is rejected
  in sandbox mode, a missing key is rejected, and a real token is accepted.
\<close>

theorem validate_fails_iff_witness:
  "(\<exists>m. fst (validate_zenodo_config default_zenodo
             [(''ZENODO_ACCESS_TOKEN'', ''  Change me '')] False) = Inl (ValueError m))
   \<and> (\<exists>m. fst (validate_zenodo_config default_zenodo
             [(''ZENODO_ACCESS_TOKEN'', ''abc123''),
              (''ZENODO_SANDBOX_ACCESS_TOKEN'', ''   '')] True) = Inl (ValueError m))
   \<and> (\<exists>m. fst (validate_zenodo_config default_zenodo [] False) = Inl (ValueError m))
   \<and> fst (validate_zenodo_config default_zenodo
             [(''ZENODO_ACCESS_TOKEN'', ''abc123'')] False) = Inr True"
  using validate_fails_iff [of "[(''ZENODO_ACCESS_TOKEN'', ''  Change me '')]" False]
        validate_fails_iff [of "[(''ZENODO_ACCESS_TOKEN'', ''abc123''),
                                 (''ZENODO_SANDBOX_ACCESS_TOKEN'', ''   '')]" True]
        validate_fails_iff [of "[]" False]
        validate_fails_iff [of "[(''ZENODO_ACCESS_TOKEN'', ''abc123'')]" False]
  by (simp add: strip_def isspace_def)

text \<open>
  C7. Two sections that agree on the selected token key (both lack it, or both hold the
  same value) get the same verdict from validation, whatever they hold elsewhere: both
  are accepted or both are rejected with a \<^verbatim>\<open>ValueError\<close>. (The text of the error differs
  when the sections differ, since it embeds the whole section.)
\<close>

theorem validate_only_selected_key:
  assumes "map_of c1 (if use_sandbox then ''ZENODO_SANDBOX_ACCESS_TOKEN''
                      else ''ZENODO_ACCESS_TOKEN'')
         = map_of c2 (if use_sandbox then ''ZENODO_SANDBOX_ACCESS_TOKEN''
                      else ''ZENODO_ACCESS_TOKEN'')"
  shows "(fst (validate_zenodo_config default_zenodo c1 use_sandbox) = Inr True) =
         (fst (validate_zenodo_config default_zenodo c2 use_sandbox) = Inr True)
       \<and> (\<exists>m. fst (validate_zenodo_config default_zenodo c1 use_sandbox) = Inl (ValueError m)) =
         (\<exists>m. fst (validate_zenodo_config default_zenodo c2 use_sandbox) = Inl (ValueError m))"
  unfolding validate_fst using assms by (simp split: option.splits)

text \<open>
  In production mode a placeholder sandbox token and an absent sandbox token change
  nothing: the section with the real production token is accepted either way.
\<close>

theorem validate_only_selected_key_witness:
  "map_of [(''ZENODO_ACCESS_TOKEN'', ''abc123''),
           (''ZENODO_SANDBOX_ACCESS_TOKEN'', ''Change me'')] ''ZENODO_ACCESS_TOKEN''
     = map_of [(''ZENODO_ACCESS_TOKEN'', ''abc123'')] ''ZENODO_ACCESS_TOKEN''
   \<and> fst (validate_zenodo_config default_zenodo
          [(''ZENODO_ACCESS_TOKEN'', ''abc123''),
           (''ZENODO_SANDBOX_ACCESS_TOKEN'', ''Change me'')] False) = Inr True
   \<and> fst (validate_zenodo_config default_zenodo
          [(''ZENODO_ACCESS_TOKEN'', ''abc123'')] False) = Inr True"
proof -
  have same: "map_of [(''ZENODO_ACCESS_TOKEN'', ''abc123''),
                      (''ZENODO_SANDBOX_ACCESS_TOKEN'', ''Change me'')]
                (if False then ''ZENODO_SANDBOX_ACCESS_TOKEN'' else ''ZENODO_ACCESS_TOKEN'')
            = map_of [(''ZENODO_ACCESS_TOKEN'', ''abc123'')]
                (if False then ''ZENODO_SANDBOX_ACCESS_TOKEN'' else ''ZENODO_ACCESS_TOKEN'')"
    by simp
  have "fst (validate_zenodo_config default_zenodo
          [(''ZENODO_ACCESS_TOKEN'', ''abc123'')] False) = Inr True"
    by (simp add: validate_zenodo_config_def getitem_default strip_def isspace_def)
  with validate_only_selected_key [OF same] show ?thesis
    by simp
qed

text \<open>
  C9. When validation accepts a section it returns \<^verbatim>\<open>True\<close> and the section holds after
  the call exactly the key/value pairs, in the same order, that it held before.
\<close>

theorem validate_leaves_config:
  assumes "fst (validate_zenodo_config default_zenodo config use_sandbox) = Inr True"
  shows "validate_zenodo_config default_zenodo config use_sandbox = (Inr True, config)"
  using assms validate_snd [of default_zenodo config use_sandbox]
  by (cases "validate_zenodo_config default_zenodo config use_sandbox") simp

theorem validate_leaves_config_witness:
  "validate_zenodo_config default_zenodo [(''ZENODO_ACCESS_TOKEN'', ''abc123'')] False
     = (Inr True, [(''ZENODO_ACCESS_TOKEN'', ''abc123'')])"
proof -
  have "fst (validate_zenodo_config default_zenodo
          [(''ZENODO_ACCESS_TOKEN'', ''abc123'')] False) = Inr True"
    by (simp add: validate_zenodo_config_def getitem_default strip_def isspace_def)
  then show ?thesis
    by (rule validate_leaves_config)
qed

text \<open>
  C4. The message of a failed validation embeds the \<^verbatim>\<open>repr\<close> of the whole section. With
  the placeholder as production token and a real sandbox token, production-mode
  validation raises a \<^verbatim>\<open>ValueError\<close> whose message holds the sandbox token in full, and
  the placeholder that was checked as well; the masked form that
  \<^verbatim>\<open>hide_access_token\<close> would give is not what the message holds.
\<close>

theorem validate_message_holds_token:
  "fst (validate_zenodo_config default_zenodo
          [(''ZENODO_ACCESS_TOKEN'', ''Change me''),
           (''ZENODO_SANDBOX_ACCESS_TOKEN'', ''s3cr3t-sandbox-token'')] False) =
     Inl (ValueError
       ''ZENODO_ACCESS_TOKEN is not set or invalid in production environment. Config: {'ZENODO_ACCESS_TOKEN': 'Change me', 'ZENODO_SANDBOX_ACCESS_TOKEN': 's3cr3t-sandbox-token'}'')
   \<and> sublist ''s3cr3t-sandbox-token''
         (production_message
            [(''ZENODO_ACCESS_TOKEN'', ''Change me''),
             (''ZENODO_SANDBOX_ACCESS_TOKEN'', ''s3cr3t-sandbox-token'')])
   \<and> hide_access_token ''s3cr3t-sandbox-token'' = ''s3cr****************''"
proof (intro conjI)
  show "fst (validate_zenodo_config default_zenodo
          [(''ZENODO_ACCESS_TOKEN'', ''Change me''),
           (''ZENODO_SANDBOX_ACCESS_TOKEN'', ''s3cr3t-sandbox-token'')] False) =
     Inl (ValueError
       ''ZENODO_ACCESS_TOKEN is not set or invalid in production environment. Config: {'ZENODO_ACCESS_TOKEN': 'Change me', 'ZENODO_SANDBOX_ACCESS_TOKEN': 's3cr3t-sandbox-token'}'')"
    by (simp add: validate_zenodo_config_def default_zenodo_def getitem_def strip_def isspace_def
        production_message_def repr_dict_def repr_str_def repr_quote_def repr_char_def
        isprintable_def)
next
  have "production_message
            [(''ZENODO_ACCESS_TOKEN'', ''Change me''),
             (''ZENODO_SANDBOX_ACCESS_TOKEN'', ''s3cr3t-sandbox-token'')]
      = (''ZENODO_ACCESS_TOKEN is not set or invalid in production environment. Config: {'ZENODO_ACCESS_TOKEN': 'Change me', 'ZENODO_SANDBOX_ACCESS_TOKEN': '' @ [CHR 0x27])
        @ ''s3cr3t-sandbox-token'' @ [CHR 0x27, CHR ''}'']"
    by (simp add: production_message_def repr_dict_def repr_str_def repr_quote_def
        repr_char_def isprintable_def)
  then show "sublist ''s3cr3t-sandbox-token''
         (production_message
            [(''ZENODO_ACCESS_TOKEN'', ''Change me''),
             (''ZENODO_SANDBOX_ACCESS_TOKEN'', ''s3cr3t-sandbox-token'')])"
    by (simp only: sublist_appendI)
next
  show "hide_access_token ''s3cr3t-sandbox-token'' = ''s3cr****************''"
    by (simp add: hide_access_token_def numeral_eq_Suc)
qed

subsection \<open>Source discovery\<close>

text \<open>
  C6. \<^verbatim>\<open>read_config_file\<close> reads, in this order and stopping at the first that applies:
  the explicit path when one is given (a non-empty string; whether it exists is not
  asked, it is opened at once), else the settings file of the working directory when it
  exists, else the settings file of the home directory when it exists, else the built-in
  default as the section \<^verbatim>\<open>zenodo\<close>. When both settings files exist, the one of the
  working directory is read.
\<close>

theorem discovery_order:
  "(truthy file \<longrightarrow> read_config_file w dz file = load_toml w (the file))
   \<and> (\<not> truthy file \<and> path_exists w settings_name
        \<longrightarrow> read_config_file w dz file = load_toml w settings_name)
   \<and> (\<not> truthy file \<and> \<not> path_exists w settings_name
        \<and> path_exists w (expanduser w (''~/'' @ settings_name))
        \<longrightarrow> read_config_file w dz file = load_toml w (expanduser w (''~/'' @ settings_name)))
   \<and> (\<not> truthy file \<and> \<not> path_exists w settings_name
        \<and> \<not> path_exists w (expanduser w (''~/'' @ settings_name))
        \<longrightarrow> read_config_file w dz file = Inr ((\<lambda>_. None)(''zenodo'' := Some dz)))"
  by (simp add: read_config_file_def)

text \<open>
  An explicit path that does not exist is opened all the same; with both settings files
  the one of the working directory is read; with the home file alone, that one; with
  neither, the default.
\<close>

theorem discovery_order_witness:
  "read_config_file (world_with_files True True no_env) default_zenodo (Some ''missing.toml'')
     = Inl (FileNotFoundError ''missing.toml'')
   \<and> read_config_file (world_with_files True True no_env) default_zenodo None = Inr cwd_doc
   \<and> read_config_file (world_with_files False True no_env) default_zenodo None = Inr home_doc
   \<and> read_config_file (world_with_files False False no_env) default_zenodo None
     = Inr ((\<lambda>_. None)(''zenodo'' := Some default_zenodo))"
  using discovery_order [of "Some ''missing.toml''" "world_with_files True True no_env"
                            default_zenodo]
        discovery_order [of None "world_with_files True True no_env" default_zenodo]
        discovery_order [of None "world_with_files False True no_env" default_zenodo]
        discovery_order [of None "world_with_files False False no_env" default_zenodo]
  by (simp add: world_with_files_def settings_name_def)

subsection \<open>Section extraction and environment overlay\<close>

lemma env_update_keys:
  "set keys \<subseteq> set (map fst d) \<Longrightarrow> map fst (env_update w keys d) = map fst d"
proof (induction keys arbitrary: d)
  case Nil
  show ?case by simp
next
  case (Cons key keys)
  show ?case
  proof (cases "environ w key")
    case None
    with Cons show ?thesis by simp
  next
    case (Some v)
    have same: "map fst (AList.update key v d) = map fst d"
      using Cons.prems by (simp add: update_keys)
    have "map fst (env_update w keys (AList.update key v d)) = map fst (AList.update key v d)"
      using Cons.prems by (intro Cons.IH) (simp add: same)
    with Some same show ?thesis by simp
  qed
qed

lemma env_update_map_of:
  "map_of (env_update w keys d) k =
     (if k \<in> set keys then (case environ w k of Some v \<Rightarrow> Some v | None \<Rightarrow> map_of d k)
      else map_of d k)"
  by (induction keys arbitrary: d) (auto simp: update_conv' split: option.splits)

text \<open>
  C5. The overlay keeps the keys of the section as they are (the same keys in the same
  order), and gives each key the value of the environment variable of that name when
  there is one and the section's value otherwise; a name that is not a key of the
  section is not a key of the result, whatever the environment holds. For a section that
  is not empty this overlay is what the resolution returns.
\<close>

theorem env_overlay_result:
  "map fst (env_update w (map fst cs) cs) = map fst cs
   \<and> (\<forall>k. map_of (env_update w (map fst cs) cs) k =
          (case map_of cs k of
             None \<Rightarrow> None
           | Some v \<Rightarrow> Some (case environ w k of Some e \<Rightarrow> e | None \<Rightarrow> v)))
   \<and> (read_config_file w dz config_file = Inr config \<and> config section_name = Some cs \<and> cs \<noteq> []
        \<longrightarrow> config_section_wrapped w dz config_file section_name
              = Inr (env_update w (map fst cs) cs))"
proof (intro conjI allI impI)
  show "map fst (env_update w (map fst cs) cs) = map fst cs"
    by (rule env_update_keys) simp
next
  fix k
  have "(k \<in> set (map fst cs)) = (map_of cs k \<noteq> None)"
    by (simp add: map_of_eq_None_iff)
  then show "map_of (env_update w (map fst cs) cs) k =
          (case map_of cs k of
             None \<Rightarrow> None
           | Some v \<Rightarrow> Some (case environ w k of Some e \<Rightarrow> e | None \<Rightarrow> v))"
    by (auto simp: env_update_map_of split: option.splits)
next
  assume "read_config_file w dz config_file = Inr config \<and> config section_name = Some cs
            \<and> cs \<noteq> []"
  then show "config_section_wrapped w dz config_file section_name
              = Inr (env_update w (map fst cs) cs)"
    by (simp add: config_section_wrapped_def)
qed

text \<open>
  With \<^verbatim>\<open>ZENODO_ACCESS_TOKEN=env-token\<close> and \<^verbatim>\<open>FOO=bar\<close> in the environment, the
  section of the working directory's file comes back with the token of the environment
  and without a key \<^verbatim>\<open>FOO\<close>.
\<close>

theorem env_overlay_result_witness:
  "read_config_file (world_with_files True False token_env) default_zenodo None = Inr cwd_doc
   \<and> cwd_doc ''zenodo'' = Some [(''ZENODO_ACCESS_TOKEN'', ''cwd-token'')]
   \<and> config_section_wrapped (world_with_files True False token_env) default_zenodo None ''zenodo''
       = Inr [(''ZENODO_ACCESS_TOKEN'', ''env-token'')]
   \<and> environ (world_with_files True False token_env) ''FOO'' = Some ''bar''
   \<and> map_of (env_update (world_with_files True False token_env)
               (map fst [(''ZENODO_ACCESS_TOKEN'', ''cwd-token'')])
               [(''ZENODO_ACCESS_TOKEN'', ''cwd-token'')]) ''FOO'' = None"
proof -
  have read: "read_config_file (world_with_files True False token_env) default_zenodo None
                = Inr cwd_doc"
    by (simp add: read_config_file_def world_with_files_def settings_name_def)
  have sec: "cwd_doc ''zenodo'' = Some [(''ZENODO_ACCESS_TOKEN'', ''cwd-token'')]"
    by (simp add: cwd_doc_def)
  have env: "environ (world_with_files True False token_env) ''FOO'' = Some ''bar''"
            "environ (world_with_files True False token_env) ''ZENODO_ACCESS_TOKEN''
               = Some ''env-token''"
    by (simp_all add: world_with_files_def token_env_def)
  from env_overlay_result [of "world_with_files True False token_env"
         "[(''ZENODO_ACCESS_TOKEN'', ''cwd-token'')]" default_zenodo None cwd_doc "''zenodo''"]
       read sec env
  show ?thesis by simp
qed

text \<open>
  C8. When the document that is read has no section of the requested name, the body of
  \<^verbatim>\<open>config_section\<close> raises a \<^verbatim>\<open>ValueError\<close> whose message is
  \<^verbatim>\<open>Section <name> not found in the configuration file\<close>, with the requested name in
  it; and so does the cached \<^verbatim>\<open>config_section\<close> on every call that reads a document (a
  call that misses the cache), leaving the cache and the heap as they were.
\<close>

theorem missing_section_named:
  assumes "read_config_file w dz config_file = Inr config"
      and "config section_name = None"
  shows "config_section_wrapped w dz config_file section_name =
           Inl (ValueError (''Section '' @ section_name @ '' not found in the configuration file''))
       \<and> (map_of (lru s) (config_file, section_name) = None \<and> heap s default_zenodo_addr = dz
            \<longrightarrow> config_section w config_file section_name s =
                  (Inl (ValueError
                     (''Section '' @ section_name @ '' not found in the configuration file'')), s))"
  using assms
  by (simp add: config_section_wrapped_def config_section_def section_not_found_def)

theorem missing_section_named_witness:
  "read_config_file (world_with_files True False no_env) default_zenodo None = Inr cwd_doc
   \<and> cwd_doc ''nonexistent'' = None
   \<and> config_section_wrapped (world_with_files True False no_env) default_zenodo None ''nonexistent''
     = Inl (ValueError ''Section nonexistent not found in the configuration file'')
   \<and> config_section (world_with_files True False no_env) None ''nonexistent'' init_state
     = (Inl (ValueError ''Section nonexistent not found in the configuration file''), init_state)"
proof -
  have read: "read_config_file (world_with_files True False no_env) default_zenodo None
                = Inr cwd_doc"
    by (simp add: read_config_file_def world_with_files_def settings_name_def)
  have absent: "cwd_doc ''nonexistent'' = None"
    by (simp add: cwd_doc_def)
  have miss: "map_of (lru init_state) (None, ''nonexistent'') = None
                \<and> heap init_state default_zenodo_addr = default_zenodo"
    by (simp add: init_state_def)
  from missing_section_named [OF read absent, of init_state] miss read absent
  show ?thesis by simp
qed

text \<open>
  C10. When the requested section is in the document and is empty,
  \<^verbatim>\<open>config_section\<close> raises the \<^verbatim>\<open>ValueError\<close> of a missing section, with the same
  message: the result is the one of any document that lacks the section. The cached
  \<^verbatim>\<open>config_section\<close> raises it on every call that reads the document (a call that
  misses the cache), leaving the cache and the heap as they were.
\<close>

theorem empty_section_as_missing:
  assumes "read_config_file w dz config_file = Inr config"
      and "config section_name = Some []"
      and "read_config_file w' dz' config_file' = Inr config'"
      and "config' section_name = None"
  shows "config_section_wrapped w dz config_file section_name =
           Inl (ValueError (''Section '' @ section_name @ '' not found in the configuration file''))
       \<and> config_section_wrapped w dz config_file section_name =
           config_section_wrapped w' dz' config_file' section_name
       \<and> (map_of (lru s) (config_file, section_name) = None \<and> heap s default_zenodo_addr = dz
            \<longrightarrow> config_section w config_file section_name s =
                  (Inl (ValueError
                     (''Section '' @ section_name @ '' not found in the configuration file'')), s))"
  using assms
  by (simp add: config_section_wrapped_def config_section_def section_not_found_def)

theorem empty_section_as_missing_witness:
  "read_config_file (world_with_files False True no_env) default_zenodo None = Inr home_doc
   \<and> home_doc ''empty'' = Some []
   \<and> read_config_file (world_with_files True False no_env) default_zenodo None = Inr cwd_doc
   \<and> cwd_doc ''empty'' = None
   \<and> config_section_wrapped (world_with_files False True no_env) default_zenodo None ''empty''
     = Inl (ValueError ''Section empty not found in the configuration file'')
   \<and> config_section_wrapped (world_with_files False True no_env) default_zenodo None ''empty''
     = config_section_wrapped (world_with_files True False no_env) default_zenodo None ''empty''
   \<and> config_section (world_with_files False True no_env) None ''empty'' init_state
     = (Inl (ValueError ''Section empty not found in the configuration file''), init_state)"
proof -
  have read: "read_config_file (world_with_files False True no_env) default_zenodo None
                = Inr home_doc"
    by (simp add: read_config_file_def world_with_files_def settings_name_def)
  have empty: "home_doc ''empty'' = Some []"
    by (simp add: home_doc_def)
  have read': "read_config_file (world_with_files True False no_env) default_zenodo None
                = Inr cwd_doc"
    by (simp add: read_config_file_def world_with_files_def settings_name_def)
  have absent: "cwd_doc ''empty'' = None"
    by (simp add: cwd_doc_def)
  have miss: "map_of (lru init_state) (None, ''empty'') = None
                \<and> heap init_state default_zenodo_addr = default_zenodo"
    by (simp add: init_state_def)
  from empty_section_as_missing [OF read empty read' absent, of init_state]
       read empty read' absent miss
  show ?thesis by auto
qed

subsection \<open>The cache\<close>

lemma config_section_hit:
  "map_of (lru s) (config_file, section_name) = Some a \<Longrightarrow>
   config_section w config_file section_name s =
     (Inr a, s\<lparr>lru := ((config_file, section_name), a)
                     # filter (\<lambda>e. fst e \<noteq> (config_file, section_name)) (lru s)\<rparr>)"
  by (simp add: config_section_def Let_def)

lemma config_section_miss:
  "map_of (lru s) (config_file, section_name) = None \<Longrightarrow>
   config_section w config_file section_name s =
     (case config_section_wrapped w (heap s default_zenodo_addr) config_file section_name of
        Inl e \<Rightarrow> (Inl e, s)
      | Inr d \<Rightarrow>
          (Inr (next_addr s),
           s\<lparr>heap := (heap s)(next_addr s := d),
             next_addr := Suc (next_addr s),
             lru := take maxsize (((config_file, section_name), next_addr s) # lru s)\<rparr>))"
  by (simp add: config_section_def Let_def)

lemma take_maxsize_Cons: "take maxsize (x # xs) = x # take 31 xs"
  by (simp add: maxsize_def take_Cons')

lemma cached_after:
  assumes "config_section w config_file section_name s = (Inr a, s1)"
  shows "map_of (lru s1) (config_file, section_name) = Some a"
proof (cases "map_of (lru s) (config_file, section_name)")
  case None
  with assms show ?thesis
    by (auto simp: config_section_miss take_maxsize_Cons split: sum.splits)
next
  case (Some b)
  with assms show ?thesis
    by (auto simp: config_section_hit)
qed

lemma returned_addr:
  assumes "wf_state s" and "config_section w config_file section_name s = (Inr a, s1)"
  shows "default_zenodo_addr < a \<and> a < next_addr s1 \<and> wf_state s1
       \<and> heap s1 default_zenodo_addr = heap s default_zenodo_addr"
proof (cases "map_of (lru s) (config_file, section_name)")
  case None
  from assms(1) have old: "default_zenodo_addr < snd e \<and> snd e < next_addr s"
    if "e \<in> set (lru s)" for e
    using that by (simp add: wf_state_def list_all_iff)
  from None assms(2) obtain d where
    a: "a = next_addr s" and
    s1: "s1 = s\<lparr>heap := (heap s)(next_addr s := d),
                 next_addr := Suc (next_addr s),
                 lru := ((config_file, section_name), next_addr s) # take 31 (lru s)\<rparr>"
    by (auto simp: config_section_miss take_maxsize_Cons split: sum.splits)
  have "default_zenodo_addr < snd e \<and> snd e < Suc (next_addr s)"
    if "e \<in> set (take 31 (lru s))" for e
    using old [of e] that by (auto dest: in_set_takeD)
  with assms(1) a s1 show ?thesis
    by (simp add: wf_state_def list_all_iff)
next
  case (Some b)
  from assms(1) have old: "default_zenodo_addr < snd e \<and> snd e < next_addr s"
    if "e \<in> set (lru s)" for e
    using that by (simp add: wf_state_def list_all_iff)
  from Some have "((config_file, section_name), b) \<in> set (lru s)"
    by (rule map_of_SomeD)
  from old [OF this] have b: "default_zenodo_addr < b \<and> b < next_addr s"
    by simp
  from Some assms(2) have
    a: "a = b" and
    s1: "s1 = s\<lparr>lru := ((config_file, section_name), b)
                     # filter (\<lambda>e. fst e \<noteq> (config_file, section_name)) (lru s)\<rparr>"
    by (auto simp: config_section_hit)
  have "default_zenodo_addr < snd e \<and> snd e < next_addr s"
    if "e \<in> set (filter (\<lambda>e. fst e \<noteq> (config_file, section_name)) (lru s))" for e
    using old [of e] that by simp
  with assms(1) a b s1 show ?thesis
    by (simp add: wf_state_def list_all_iff)
qed

lemma default_kept:
  assumes "wf_state s"
  shows "heap (snd (config_section w config_file section_name s)) default_zenodo_addr
           = heap s default_zenodo_addr"
proof (cases "config_section w config_file section_name s")
  case (Pair r s1)
  show ?thesis
  proof (cases r)
    case (Inl e)
    with Pair have "s1 = s"
      by (auto simp: config_section_def Let_def split: option.splits sum.splits)
    with Pair show ?thesis by simp
  next
    case (Inr a)
    with Pair returned_addr [OF assms, of w config_file section_name a s1]
    show ?thesis by simp
  qed
qed

lemma first_call_example:
  "config_section (world_without_files no_env) None ''zenodo'' init_state =
     (Inr 1, state_after_first_call)"
  by (simp add: config_section_def config_section_wrapped_def read_config_file_def
      world_without_files_def world_with_files_def no_env_def init_state_def default_zenodo_def
      default_zenodo_addr_def settings_name_def maxsize_def state_after_first_call_def)

text \<open>
  C2. What \<^verbatim>\<open>lru_cache\<close> keeps is the mapping that \<^verbatim>\<open>config_section\<close> returned, overlay
  included. After a call that returned a mapping, a second call with the same
  arguments returns the same object with the content it had, whatever the environment
  and the files are at the second call. The overlay is computed when a call misses the
  cache, from the environment of that call.
\<close>

theorem cached_overlay_returned:
  assumes "config_section w1 config_file section_name s = (Inr a, s1)"
  shows "fst (config_section w2 config_file section_name s1) = Inr a
       \<and> heap (snd (config_section w2 config_file section_name s1)) = heap s1
       \<and> (map_of (lru s) (config_file, section_name) = None \<longrightarrow>
            config_section_wrapped w1 (heap s default_zenodo_addr) config_file section_name
              = Inr (heap s1 a))"
proof -
  have "map_of (lru s1) (config_file, section_name) = Some a"
    using assms by (rule cached_after)
  then have hit: "fst (config_section w2 config_file section_name s1) = Inr a
       \<and> heap (snd (config_section w2 config_file section_name s1)) = heap s1"
    by (simp add: config_section_hit)
  have "config_section_wrapped w1 (heap s default_zenodo_addr) config_file section_name
              = Inr (heap s1 a)"
    if "map_of (lru s) (config_file, section_name) = None"
    using that assms by (auto simp: config_section_miss split: sum.splits)
  with hit show ?thesis by blast
qed

text \<open>
  With no settings file: the first call, made with an empty environment, returns the
  object at address 1 holding the default; the second call, made with
  \<^verbatim>\<open>ZENODO_ACCESS_TOKEN=env-token\<close> set, returns that object as it is.
\<close>

theorem cached_overlay_returned_witness:
  "config_section (world_without_files no_env) None ''zenodo'' init_state
     = (Inr 1, state_after_first_call)
   \<and> fst (config_section (world_without_files token_env) None ''zenodo''
            state_after_first_call) = Inr 1
   \<and> heap (snd (config_section (world_without_files token_env) None ''zenodo''
            state_after_first_call)) = heap state_after_first_call
   \<and> map_of (lru init_state) (None, ''zenodo'') = None
   \<and> config_section_wrapped (world_without_files no_env)
         (heap init_state default_zenodo_addr) None ''zenodo''
       = Inr (heap state_after_first_call 1)"
proof -
  have miss: "map_of (lru init_state) (None, ''zenodo'') = None"
    by (simp add: init_state_def)
  from cached_overlay_returned [OF first_call_example, of "world_without_files token_env"]
       first_call_example miss
  show ?thesis by simp
qed

text \<open>
  The claim as it is written fails: in that run the environment of the second call has
  \<^verbatim>\<open>ZENODO_ACCESS_TOKEN=env-token\<close>, a resolution computed then would give that token,
  and the mapping the second call returns still holds \<^verbatim>\<open>Change me\<close>.
\<close>

theorem overlay_recomputed_counterexample:
  "fst (config_section (world_without_files token_env) None ''zenodo''
          (snd (config_section (world_without_files no_env) None ''zenodo'' init_state))) = Inr 1
   \<and> heap (snd (config_section (world_without_files token_env) None ''zenodo''
          (snd (config_section (world_without_files no_env) None ''zenodo'' init_state)))) 1
       = [(''ZENODO_ACCESS_TOKEN'', ''Change me''), (''ZENODO_SANDBOX_ACCESS_TOKEN'', ''Change me'')]
   \<and> environ (world_without_files token_env) ''ZENODO_ACCESS_TOKEN'' = Some ''env-token''
   \<and> config_section_wrapped (world_without_files token_env) default_zenodo None ''zenodo''
       = Inr [(''ZENODO_ACCESS_TOKEN'', ''env-token''),
              (''ZENODO_SANDBOX_ACCESS_TOKEN'', ''Change me'')]"
  by (simp add: config_section_def config_section_wrapped_def read_config_file_def
      world_without_files_def world_with_files_def no_env_def token_env_def init_state_def
      default_zenodo_def default_zenodo_addr_def settings_name_def maxsize_def)

text \<open>
  C3. The built-in default section is never changed: not by a resolution, and not by a
  caller who changes the mapping a resolution returned, since that mapping is never the
  default object. A resolution that falls through to the default and is not answered
  from the cache returns a new object, other than the one an earlier resolution
  returned, holding the overlay of the default; what the earlier caller did to its
  mapping does not show in it.
\<close>

theorem default_independence_on_miss:
  assumes "wf_state s" and "heap s default_zenodo_addr = default_zenodo"
  shows "heap (snd (config_section w config_file section_name s)) default_zenodo_addr
           = default_zenodo
       \<and> (config_section w1 file1 ''zenodo'' s = (Inr a1, s1)
            \<and> \<not> truthy file2
            \<and> first_file_that_exists w2 [settings_name, expanduser w2 (''~/'' @ settings_name)]
                = None
            \<and> map_of (lru s1) (file2, ''zenodo'') = None
          \<longrightarrow> (\<exists>a2 s2.
                 config_section w2 file2 ''zenodo'' (s1\<lparr>heap := (heap s1)(a1 := m)\<rparr>)
                   = (Inr a2, s2)
                 \<and> a2 \<noteq> a1
                 \<and> heap s2 a2 = env_update w2 (map fst default_zenodo) default_zenodo
                 \<and> heap s2 a1 = m
                 \<and> heap s2 default_zenodo_addr = default_zenodo))"
proof (intro conjI impI)
  show "heap (snd (config_section w config_file section_name s)) default_zenodo_addr
          = default_zenodo"
    using assms by (simp add: default_kept)
next
  assume hyp: "config_section w1 file1 ''zenodo'' s = (Inr a1, s1)
            \<and> \<not> truthy file2
            \<and> first_file_that_exists w2 [settings_name, expanduser w2 (''~/'' @ settings_name)]
                = None
            \<and> map_of (lru s1) (file2, ''zenodo'') = None"
  then have call1: "config_section w1 file1 ''zenodo'' s = (Inr a1, s1)"
    by simp
  from returned_addr [OF assms(1) call1] assms(2)
  have a1: "default_zenodo_addr < a1" "a1 < next_addr s1"
    and wf1: "wf_state s1"
    and dz1: "heap s1 default_zenodo_addr = default_zenodo"
    by simp_all
  let ?s1' = "s1\<lparr>heap := (heap s1)(a1 := m)\<rparr>"
  have dz1': "heap ?s1' default_zenodo_addr = default_zenodo"
    using a1 dz1 by simp
  have miss: "map_of (lru ?s1') (file2, ''zenodo'') = None"
    using hyp by simp
  have "read_config_file w2 default_zenodo file2
          = Inr ((\<lambda>_. None)(''zenodo'' := Some default_zenodo))"
    using hyp by (simp add: read_config_file_def)
  then have body: "config_section_wrapped w2 default_zenodo file2 ''zenodo''
          = Inr (env_update w2 (map fst default_zenodo) default_zenodo)"
    by (simp add: config_section_wrapped_def default_zenodo_def)
  have dflt: "default_zenodo_addr \<noteq> next_addr s1"
    using wf1 by (simp add: wf_state_def)
  from config_section_miss [OF miss, of w2] body dz1' a1 dflt dz1
  show "\<exists>a2 s2.
          config_section w2 file2 ''zenodo'' ?s1' = (Inr a2, s2)
          \<and> a2 \<noteq> a1
          \<and> heap s2 a2 = env_update w2 (map fst default_zenodo) default_zenodo
          \<and> heap s2 a1 = m
          \<and> heap s2 default_zenodo_addr = default_zenodo"
    by simp
qed

text \<open>
  With no settings file and an empty environment: a resolution with \<^verbatim>\<open>None\<close> as file
  returns the object at address 1, the caller stores a key \<^verbatim>\<open>X\<close> in it, and a
  resolution with the empty string as file (which is read as no file, and is another
  cache key) returns the object at address 2 holding the default, with no key \<^verbatim>\<open>X\<close>.
\<close>

theorem default_independence_on_miss_witness:
  "wf_state init_state
   \<and> heap init_state default_zenodo_addr = default_zenodo
   \<and> config_section (world_without_files no_env) None ''zenodo'' init_state
       = (Inr 1, state_after_first_call)
   \<and> \<not> truthy (Some [])
   \<and> first_file_that_exists (world_without_files no_env)
         [settings_name, expanduser (world_without_files no_env) (''~/'' @ settings_name)] = None
   \<and> map_of (lru state_after_first_call) (Some [], ''zenodo'') = None
   \<and> setitem 1 ''X'' ''1'' state_after_first_call
       = state_after_first_call
           \<lparr>heap := (heap state_after_first_call)(1 := default_zenodo @ [(''X'', ''1'')])\<rparr>
   \<and> (\<exists>a2 s2.
          config_section (world_without_files no_env) (Some []) ''zenodo''
            (state_after_first_call
               \<lparr>heap := (heap state_after_first_call)(1 := default_zenodo @ [(''X'', ''1'')])\<rparr>)
            = (Inr a2, s2)
          \<and> a2 \<noteq> 1
          \<and> heap s2 a2
              = env_update (world_without_files no_env) (map fst default_zenodo) default_zenodo
          \<and> heap s2 1 = default_zenodo @ [(''X'', ''1'')]
          \<and> heap s2 default_zenodo_addr = default_zenodo)
   \<and> heap (snd (config_section (world_without_files no_env) None ''zenodo'' init_state))
        default_zenodo_addr = default_zenodo"
proof -
  have wf: "wf_state init_state"
    by (simp add: wf_state_def init_state_def default_zenodo_addr_def)
  have dz: "heap init_state default_zenodo_addr = default_zenodo"
    by (simp add: init_state_def)
  have falsy: "\<not> truthy (Some [])"
    by simp
  have nofile: "first_file_that_exists (world_without_files no_env)
         [settings_name, expanduser (world_without_files no_env) (''~/'' @ settings_name)] = None"
    by (simp add: world_without_files_def world_with_files_def settings_name_def)
  have miss: "map_of (lru state_after_first_call) (Some [], ''zenodo'') = None"
    by (simp add: state_after_first_call_def)
  have mut: "setitem 1 ''X'' ''1'' state_after_first_call
       = state_after_first_call
           \<lparr>heap := (heap state_after_first_call)(1 := default_zenodo @ [(''X'', ''1'')])\<rparr>"
    by (simp add: setitem_def state_after_first_call_def default_zenodo_def)
  note inst = default_independence_on_miss [OF wf dz,
      of "world_without_files no_env" None "''zenodo''"
         "world_without_files no_env" None 1 state_after_first_call
         "Some []" "world_without_files no_env" "default_zenodo @ [(''X'', ''1'')]"]
  from inst have kept:
    "heap (snd (config_section (world_without_files no_env) None ''zenodo'' init_state))
        default_zenodo_addr = default_zenodo"
    by (rule conjunct1)
  from inst first_call_example falsy nofile miss have fresh:
    "\<exists>a2 s2.
          config_section (world_without_files no_env) (Some []) ''zenodo''
            (state_after_first_call
               \<lparr>heap := (heap state_after_first_call)(1 := default_zenodo @ [(''X'', ''1'')])\<rparr>)
            = (Inr a2, s2)
          \<and> a2 \<noteq> 1
          \<and> heap s2 a2
              = env_update (world_without_files no_env) (map fst default_zenodo) default_zenodo
          \<and> heap s2 1 = default_zenodo @ [(''X'', ''1'')]
          \<and> heap s2 default_zenodo_addr = default_zenodo"
    by blast
  from wf dz first_call_example falsy nofile miss mut fresh kept
  show ?thesis by blast
qed

text \<open>
  The claim as it is written fails: when the second resolution has the same arguments
  as the first, it returns the object the first caller changed, and the key \<^verbatim>\<open>X\<close> is
  in it.
\<close>

theorem default_independence_counterexample:
  "fst (config_section (world_without_files no_env) None ''zenodo'' init_state) = Inr 1
   \<and> fst (config_section (world_without_files no_env) None ''zenodo''
          (setitem 1 ''X'' ''1''
             (snd (config_section (world_without_files no_env) None ''zenodo'' init_state))))
       = Inr 1
   \<and> map_of (heap (snd (config_section (world_without_files no_env) None ''zenodo''
          (setitem 1 ''X'' ''1''
             (snd (config_section (world_without_files no_env) None ''zenodo'' init_state)))))
        1) ''X''
       = Some ''1''"
  by (simp add: config_section_def config_section_wrapped_def read_config_file_def
      world_without_files_def world_with_files_def no_env_def init_state_def default_zenodo_def
      setitem_def default_zenodo_addr_def settings_name_def maxsize_def)

end
